theory Spec2Isabelle
  imports Main
begin

section \<open>Python values, exceptions and warnings\<close>

text \<open>
  The cache contract of \<^verbatim>\<open>cache3/base.py\<close> is dynamically typed: a raw key may be any
  object (it is rendered with \<^verbatim>\<open>%s\<close>), a tag may be a string or \<^verbatim>\<open>None\<close>.  The values
  modelled here are \<^verbatim>\<open>None\<close>, booleans, integers and strings.  Python's numbers are
  modelled as unbounded integers; a float (and the float clock reading of
  \<^verbatim>\<open>time.time()\<close>) is represented by an integer tick.
\<close>

datatype pyval = PNone | PBool bool | PInt int | PStr string

text \<open>A parameter with a default value: either omitted by the caller or passed.\<close>

datatype 'a param = Omitted | Passed 'a

fun arg_or :: "'a \<Rightarrow> 'a param \<Rightarrow> 'a" where
  "arg_or d Omitted = d"
| "arg_or d (Passed x) = x"

text \<open>The decimal rendering of an integer, as \<^verbatim>\<open>str(i)\<close> gives it.\<close>

fun digits :: "nat \<Rightarrow> string" where
  "digits n =
     (if n < 10 then [''0123456789'' ! n]
      else digits (n div 10) @ [''0123456789'' ! (n mod 10)])"

declare digits.simps [simp del]

definition str_of_int :: "int \<Rightarrow> string" where
  "str_of_int i = (if i < 0 then CHR ''-'' # digits (nat (- i)) else digits (nat i))"

text \<open>\<^verbatim>\<open>str(x)\<close>, which is what the conversion \<^verbatim>\<open>%s\<close> applies to its argument.\<close>

fun py_str :: "pyval \<Rightarrow> string" where
  "py_str PNone = ''None''"
| "py_str (PBool b) = (if b then ''True'' else ''False'')"
| "py_str (PInt i) = str_of_int i"
| "py_str (PStr s) = s"

text \<open>\<^verbatim>\<open>type(x).__name__\<close>.\<close>

fun type_name :: "pyval \<Rightarrow> string" where
  "type_name PNone = ''NoneType''"
| "type_name (PBool b) = ''bool''"
| "type_name (PInt i) = ''int''"
| "type_name (PStr s) = ''str''"

text \<open>\<^verbatim>\<open>isinstance(x, str)\<close>.\<close>

fun isinstance_str :: "pyval \<Rightarrow> bool" where
  "isinstance_str (PStr s) = True"
| "isinstance_str v = False"

text \<open>
  The exceptions a call can end with.  \<open>TypeError\<close> and \<open>ValueError\<close> carry the text
  the source raises them with; \<open>BuiltinTypeError\<close> is a \<^verbatim>\<open>TypeError\<close> raised by the
  interpreter inside a built-in operation (a membership test on a value that is not
  iterable, a format string whose arguments do not fit); \<open>InvalidCacheKey\<close> carries
  the validator's message; \<open>ValidationError\<close> is the error a configuration validator
  of \<^verbatim>\<open>cache3.validate\<close> raises.
\<close>

datatype error =
    TypeError string
  | BuiltinTypeError
  | ValueError string
  | InvalidCacheKey "string option"
  | ValidationError

text \<open>
  A call of \<^verbatim>\<open>warnings.warn(message, category)\<close>: the call returns and the warning is
  recorded in the list of warnings the operation has emitted.  \<^verbatim>\<open>CacheKeyWarning\<close> is
  the subclass of \<^verbatim>\<open>RuntimeWarning\<close> that base.py declares.
\<close>

datatype warning = CacheKeyWarning string | RuntimeWarning string

section \<open>Settings\<close>

text \<open>
  Modelled from the spec: the constants of \<^verbatim>\<open>cache3.setting\<close> (default tag, default
  timeout, timeout bounds, maximal key length, default name, default maximal size,
  eviction policy names, default cull size), which base.py imports and which are
  not among the sources.  Their values are parameters of every operation below.
\<close>

record setting =
  DEFAULT_TAG :: string
  DEFAULT_TIMEOUT :: int
  MAX_TIMEOUT :: int
  MIN_TIMEOUT :: int
  MAX_KEY_LENGTH :: int
  DEFAULT_NAME :: string
  DEFAULT_MAX_SIZE :: int
  DEFAULT_EVICT :: string
  DEFAULT_CULL_SIZE :: int
  EVICT_LFU :: string
  EVICT_FIFO :: string
  EVICT_LRU :: string

section \<open>Keys\<close>

text \<open>
  \<^verbatim>\<open>BaseCache.make_key(key, tag)\<close>.  The test \<^verbatim>\<open>':' in tag\<close> is a substring test on a
  string and raises \<^verbatim>\<open>TypeError\<close> on \<^verbatim>\<open>None\<close>, a boolean or an integer, none of which
  is iterable.
\<close>

fun make_key :: "pyval \<Rightarrow> pyval \<Rightarrow> error + string" where
  "make_key key (PStr tag) =
     (if CHR '':'' \<in> set tag then Inl (ValueError ''The ':' is not expected in tag.'')
      else Inr (py_str key @ '':'' @ tag))"
| "make_key key tag = Inl BuiltinTypeError"

text \<open>
  \<^verbatim>\<open>s.rsplit(sep, 1)\<close> for a separator of one character: at most one split, at the
  last occurrence of the separator; a string without the separator comes back alone.
\<close>

definition rsplit1 :: "char \<Rightarrow> string \<Rightarrow> string list" where
  "rsplit1 sep s =
     (if sep \<in> set s
      then (let tail = rev (takeWhile (\<lambda>c. c \<noteq> sep) (rev s))
            in [take (length s - length tail - 1) s, tail])
      else [s])"

text \<open>\<^verbatim>\<open>BaseCache._get_key_tag(serial_key)\<close> (a static method).\<close>

definition get_key_tag :: "string \<Rightarrow> string list" where
  "get_key_tag serial_key = rsplit1 CHR '':'' serial_key"

text \<open>
  \<^verbatim>\<open>BaseCache.validate_key(key)\<close>: the pair \<^verbatim>\<open>(message, validated)\<close> it returns, and the
  warnings it has emitted.  \<^verbatim>\<open>key[:10]\<close> is the first ten characters and \<^verbatim>\<open>key[-10:]\<close>
  the last ten (the whole key when it is shorter).
\<close>

definition validate_key :: "setting \<Rightarrow> pyval \<Rightarrow> (string option \<times> bool) \<times> warning list" where
  "validate_key S key =
     (if \<not> isinstance_str key
      then ((Some (''The key must be a string ('' @ py_str key @ '' is ''
                     @ type_name key @ '')''), False), [])
      else
        (let k = py_str key in
         ((None, True),
          (if int (length k) > MAX_KEY_LENGTH S
           then [CacheKeyWarning
                   (''The key is too long( > '' @ str_of_int (MAX_KEY_LENGTH S)
                    @ ''), which can cause unnecessary waste of resources and risk: ''
                    @ take 10 k @ ''...'' @ drop (length k - 10) k @ ''.'')]
           else []))))"

text \<open>
  \<^verbatim>\<open>BaseCache.make_and_validate_key(key, tag=None)\<close>: the default of the parameter
  \<^verbatim>\<open>tag\<close> is \<^verbatim>\<open>None\<close>.  An exception of \<^verbatim>\<open>make_key\<close> propagates.
\<close>

definition make_and_validate_key ::
    "setting \<Rightarrow> pyval \<Rightarrow> pyval param \<Rightarrow> (error + string) \<times> warning list" where
  "make_and_validate_key S key tag =
     (case make_key key (arg_or PNone tag) of
        Inl e \<Rightarrow> (Inl e, [])
      | Inr k \<Rightarrow>
          (case validate_key S (PStr k) of
             ((msg, validated), ws) \<Rightarrow>
               (if validated then (Inr k, ws) else (Inl (InvalidCacheKey msg), ws))))"

section \<open>Configuration\<close>

text \<open>
  Modelled from the spec: the validators of \<^verbatim>\<open>cache3.validate\<close> (\<^verbatim>\<open>NumberValidate\<close>,
  \<^verbatim>\<open>StringValidate\<close>, \<^verbatim>\<open>EnumerateValidate\<close>), which are not among the sources.  The
  spec describes them as bounded-number, bounded-string-length and enumerated-value
  validators that run on assignment: a value out of bounds is rejected with an error
  and the field keeps its previous value.  A validator returns the value to store or
  the error.  base.py itself reads the stored values under the names \<^verbatim>\<open>_name\<close>,
  \<^verbatim>\<open>_timeout\<close> and \<^verbatim>\<open>_evict\<close>, and documents that \<^verbatim>\<open>config()\<close>, which assigns \<^verbatim>\<open>evict\<close>,
  changes \<^verbatim>\<open>_evict\<close>: an assignment to the field \<^verbatim>\<open>x\<close> stores the validated value
  under \<^verbatim>\<open>_x\<close>.
\<close>

definition NumberValidate :: "int option \<Rightarrow> int option \<Rightarrow> pyval \<Rightarrow> error + int" where
  "NumberValidate minvalue maxvalue v =
     (case v of
        PInt i \<Rightarrow>
          (if (case minvalue of None \<Rightarrow> False | Some lo \<Rightarrow> i < lo) then Inl ValidationError
           else if (case maxvalue of None \<Rightarrow> False | Some hi \<Rightarrow> hi < i) then Inl ValidationError
           else Inr i)
      | _ \<Rightarrow> Inl ValidationError)"

definition StringValidate :: "int option \<Rightarrow> int option \<Rightarrow> pyval \<Rightarrow> error + string" where
  "StringValidate minsize maxsize v =
     (case v of
        PStr s \<Rightarrow>
          (if (case minsize of None \<Rightarrow> False | Some lo \<Rightarrow> int (length s) < lo)
           then Inl ValidationError
           else if (case maxsize of None \<Rightarrow> False | Some hi \<Rightarrow> hi < int (length s))
           then Inl ValidationError
           else Inr s)
      | _ \<Rightarrow> Inl ValidationError)"

definition EnumerateValidate :: "string list \<Rightarrow> pyval \<Rightarrow> error + string" where
  "EnumerateValidate options v =
     (case v of
        PStr s \<Rightarrow> (if s \<in> set options then Inr s else Inl ValidationError)
      | _ \<Rightarrow> Inl ValidationError)"

text \<open>The validators that the class \<^verbatim>\<open>BaseCache\<close> declares for its five fields.\<close>

definition name_validate :: "setting \<Rightarrow> pyval \<Rightarrow> error + string" where
  "name_validate S = StringValidate (Some 1) (Some (MAX_KEY_LENGTH S))"

definition timeout_validate :: "setting \<Rightarrow> pyval \<Rightarrow> error + int" where
  "timeout_validate S = NumberValidate (Some (MIN_TIMEOUT S)) (Some (MAX_TIMEOUT S))"

definition max_size_validate :: "pyval \<Rightarrow> error + int" where
  "max_size_validate = NumberValidate (Some 0) None"

definition evict_validate :: "setting \<Rightarrow> pyval \<Rightarrow> error + string" where
  "evict_validate S = EnumerateValidate [EVICT_LRU S, EVICT_FIFO S, EVICT_LFU S]"

definition cull_size_validate :: "pyval \<Rightarrow> error + int" where
  "cull_size_validate = NumberValidate (Some 0) None"

text \<open>
  The state of a \<^verbatim>\<open>BaseCache\<close> object: the stored fields \<^verbatim>\<open>_name\<close>, \<^verbatim>\<open>_timeout\<close>,
  \<^verbatim>\<open>_max_size\<close>, \<^verbatim>\<open>_evict\<close>, \<^verbatim>\<open>_cull_size\<close> and \<^verbatim>\<open>_kwargs\<close>.
\<close>

record cache =
  priv_name :: string
  priv_timeout :: int
  priv_max_size :: int
  priv_evict :: string
  priv_cull_size :: int
  priv_kwargs :: "string \<rightharpoonup> pyval"

text \<open>
  \<^verbatim>\<open>BaseCache.__init__(name, timeout, max_size, **kwargs)\<close>: five validated assignments
  in the order of the source, the first failing one raising its error.
\<close>

definition init ::
    "setting \<Rightarrow> pyval param \<Rightarrow> pyval param \<Rightarrow> pyval param \<Rightarrow> (string \<rightharpoonup> pyval)
       \<Rightarrow> error + cache" where
  "init S name timeout max_size kwargs =
     (case name_validate S (arg_or (PStr (DEFAULT_NAME S)) name) of
        Inl e \<Rightarrow> Inl e
      | Inr n \<Rightarrow>
     (case timeout_validate S (arg_or (PInt (DEFAULT_TIMEOUT S)) timeout) of
        Inl e \<Rightarrow> Inl e
      | Inr t \<Rightarrow>
     (case max_size_validate (arg_or (PInt (DEFAULT_MAX_SIZE S)) max_size) of
        Inl e \<Rightarrow> Inl e
      | Inr m \<Rightarrow>
     (case evict_validate S (PStr (DEFAULT_EVICT S)) of
        Inl e \<Rightarrow> Inl e
      | Inr ev \<Rightarrow>
     (case cull_size_validate (PInt 10) of
        Inl e \<Rightarrow> Inl e
      | Inr c \<Rightarrow>
          Inr \<lparr>priv_name = n, priv_timeout = t, priv_max_size = m, priv_evict = ev,
               priv_cull_size = c, priv_kwargs = kwargs\<rparr>)))))"

text \<open>\<^verbatim>\<open>d.get(key, default)\<close> on a dictionary.\<close>

definition dict_get :: "('k \<rightharpoonup> 'v) \<Rightarrow> 'k \<Rightarrow> 'v \<Rightarrow> 'v" where
  "dict_get d key dflt = (case d key of None \<Rightarrow> dflt | Some v \<Rightarrow> v)"

text \<open>
  \<^verbatim>\<open>BaseCache.config(**kwargs)\<close>: the object after the call, and the exception the call
  ended with, if any.  The two assignments run in the order of the source; when the
  second raises, the first has already been stored.
\<close>

definition config :: "setting \<Rightarrow> cache \<Rightarrow> (string \<rightharpoonup> pyval) \<Rightarrow> cache \<times> error option" where
  "config S self kwargs =
     (case evict_validate S (dict_get kwargs ''evict'' (PStr (DEFAULT_EVICT S))) of
        Inl e \<Rightarrow> (self, Some e)
      | Inr ev \<Rightarrow>
          (let self1 = self\<lparr>priv_evict := ev\<rparr> in
           (case cull_size_validate
                   (dict_get kwargs ''cull_size'' (PInt (DEFAULT_CULL_SIZE S))) of
              Inl e \<Rightarrow> (self1, Some e)
            | Inr c \<Rightarrow> (self1\<lparr>priv_cull_size := c\<rparr>, None))))"

section \<open>Timeouts\<close>

text \<open>
  \<^verbatim>\<open>BaseCache.get_backend_timeout(timeout=DEFAULT_TIMEOUT)\<close>.  A timeout is a number
  or \<^verbatim>\<open>None\<close>; \<open>now\<close> is the clock reading \<^verbatim>\<open>current()\<close> at the call.
\<close>

definition get_backend_timeout ::
    "setting \<Rightarrow> cache \<Rightarrow> int \<Rightarrow> int option param \<Rightarrow> int option" where
  "get_backend_timeout S self now timeout =
     (let t0 = arg_or (Some (DEFAULT_TIMEOUT S)) timeout;
          t1 = (if t0 = Some (DEFAULT_TIMEOUT S) then Some (priv_timeout self) else t0)
      in (case t1 of None \<Rightarrow> None | Some x \<Rightarrow> Some (now + x)))"

section \<open>Eviction policy\<close>

text \<open>
  What \<^verbatim>\<open>getattr(self, name, empty)\<close> can find on a backend object: a callable member
  or a member that is not callable, which is a tuple of values or a value that is not
  a tuple.  The attributes of the object are a table from names to members.
\<close>

datatype plain = Scalar pyval | Tuple "pyval list"

datatype 'op attr = Method 'op | Data plain

text \<open>
  The operator \<^verbatim>\<open>%\<close> on a format with the single conversion \<^verbatim>\<open>%s\<close>, given as the text
  before and after the conversion.  A right operand that is a tuple is the argument
  list: it fits only when it has exactly one element.
\<close>

fun percent_s :: "string \<Rightarrow> string \<Rightarrow> plain \<Rightarrow> error + string" where
  "percent_s pre post (Scalar v) = Inr (pre @ py_str v @ post)"
| "percent_s pre post (Tuple [v]) = Inr (pre @ py_str v @ post)"
| "percent_s pre post (Tuple vs) = Inl BuiltinTypeError"

text \<open>
  What the property returns: the member it resolved, or the built-in class
  \<^verbatim>\<open>object\<close>, which can be called without arguments and touches no cache.
\<close>

datatype 'op handle = Resolved 'op | ObjectClass

text \<open>\<^verbatim>\<open>BaseCache.evictor\<close>: the value or exception, and the warnings emitted.\<close>

definition evictor ::
    "(string \<rightharpoonup> 'op attr) \<Rightarrow> cache \<Rightarrow> (error + 'op handle) \<times> warning list" where
  "evictor attrs self =
     (case attrs (priv_evict self) of
        None \<Rightarrow>
          (Inr ObjectClass,
           [RuntimeWarning (''Not found '' @ [CHR 0x27] @ priv_evict self @ [CHR 0x27]
              @ '' evict method, it will cause thecache to grow without limit.'')])
      | Some (Method f) \<Rightarrow> (Inr (Resolved f), [])
      | Some (Data v) \<Rightarrow>
          (case percent_s (''Invalid evict '' @ [CHR 0x27])
                  ([CHR 0x27] @ '', It must a callable object.'') v of
             Inl e \<Rightarrow> (Inl e, [])
           | Inr msg \<Rightarrow> (Inr ObjectClass, [RuntimeWarning msg])))"

section \<open>Operations composed from the backend's get and set\<close>

text \<open>
  What \<^verbatim>\<open>self.get(key, empty, tag)\<close> returns: the sentinel \<^verbatim>\<open>empty\<close> of
  \<^verbatim>\<open>cache3.utils\<close> or a stored value.  Stored values are the objects other than the
  sentinel.
\<close>

datatype 'v fetched = Empty | Val 'v

text \<open>
  The primitive operations a concrete backend supplies (\<^verbatim>\<open>BaseCache\<close> itself raises
  \<^verbatim>\<open>NotImplementedError\<close> in them): \<^verbatim>\<open>get(key, default, tag)\<close> reads the backend's state
  \<open>'st\<close>, \<^verbatim>\<open>set(key, value, timeout, tag)\<close> returns its boolean and the new state.
\<close>

record ('st, 'v) backend =
  cache_get :: "'st \<Rightarrow> string \<Rightarrow> 'v fetched \<Rightarrow> pyval \<Rightarrow> 'v fetched"
  cache_set :: "'st \<Rightarrow> string \<Rightarrow> 'v \<Rightarrow> int option \<Rightarrow> pyval \<Rightarrow> bool \<times> 'st"

text \<open>The loop of \<^verbatim>\<open>get_many\<close> over the keys, with the dictionary \<^verbatim>\<open>returns\<close>.\<close>

fun get_many_loop ::
    "('st, 'v) backend \<Rightarrow> 'st \<Rightarrow> pyval \<Rightarrow> string list \<Rightarrow> (string \<rightharpoonup> 'v) \<Rightarrow> (string \<rightharpoonup> 'v)" where
  "get_many_loop B st tag [] returns = returns"
| "get_many_loop B st tag (key # keys) returns =
     (case cache_get B st key Empty tag of
        Empty \<Rightarrow> get_many_loop B st tag keys returns
      | Val v \<Rightarrow> get_many_loop B st tag keys (returns(key \<mapsto> v)))"

text \<open>\<^verbatim>\<open>BaseCache.get_many(keys, tag=DEFAULT_TAG)\<close>.\<close>

definition get_many ::
    "setting \<Rightarrow> ('st, 'v) backend \<Rightarrow> 'st \<Rightarrow> string list \<Rightarrow> pyval param \<Rightarrow> (string \<rightharpoonup> 'v)" where
  "get_many S B st keys tag =
     get_many_loop B st (arg_or (PStr (DEFAULT_TAG S)) tag) keys Map.empty"

text \<open>
  A function object: its \<^verbatim>\<open>__name__\<close> and what a call with the arguments \<open>'a\<close>
  (\<^verbatim>\<open>*args, **kwargs\<close>) returns.
\<close>

record ('a, 'v) pyfunc =
  func_name :: string
  func_call :: "'a \<Rightarrow> 'v"

text \<open>
  The \<^verbatim>\<open>wrapper\<close> that \<^verbatim>\<open>memoize(tag, timeout)(func)\<close> returns, called with \<open>args\<close> in
  the backend state \<open>st\<close>: the value returned, the state after the call, and the
  argument lists \<open>func\<close> was invoked with during the call.
\<close>

definition wrapper ::
    "('st, 'v) backend \<Rightarrow> pyval \<Rightarrow> int option \<Rightarrow> ('a, 'v) pyfunc \<Rightarrow> 'a \<Rightarrow> 'st
       \<Rightarrow> 'v \<times> 'st \<times> 'a list" where
  "wrapper B tag timeout func args st =
     (case cache_get B st (func_name func) Empty tag of
        Empty \<Rightarrow>
          (let v = func_call func args;
               st1 = snd (cache_set B st (func_name func) v timeout tag)
           in (v, st1, [args]))
      | Val v \<Rightarrow> (v, st, []))"

text \<open>
  The argument \<^verbatim>\<open>tag\<close> of \<^verbatim>\<open>memoize\<close>: a callable (the decorator applied without
  parentheses) or a tag.
\<close>

datatype tag_arg = CallableTag | PlainTag pyval

text \<open>
  \<^verbatim>\<open>BaseCache.memoize(tag=DEFAULT_TAG, timeout=DEFAULT_TIMEOUT)\<close>: the error, or the
  decorator, which maps a function to its wrapper.
\<close>

definition memoize ::
    "setting \<Rightarrow> ('st, 'v) backend \<Rightarrow> tag_arg param \<Rightarrow> int option param
       \<Rightarrow> error + (('a, 'v) pyfunc \<Rightarrow> 'a \<Rightarrow> 'st \<Rightarrow> 'v \<times> 'st \<times> 'a list)" where
  "memoize S B tag timeout =
     (case arg_or (PlainTag (PStr (DEFAULT_TAG S))) tag of
        CallableTag \<Rightarrow>
          Inl (TypeError
            (''Mame cannot be callable. ('' @ [CHR 0x27] @ ''@cache.memoize()'' @ [CHR 0x27]
             @ '' not '' @ [CHR 0x27] @ ''@cache.memoize'' @ [CHR 0x27] @ '').''))
      | PlainTag t \<Rightarrow>
          Inr (\<lambda>func. wrapper B t (arg_or (Some (DEFAULT_TIMEOUT S)) timeout) func))"

section \<open>Concrete instances\<close>

text \<open>A choice of the constants on which the operations are evaluated.\<close>

definition example_setting :: setting where
  "example_setting =
     \<lparr>DEFAULT_TAG = ''default'', DEFAULT_TIMEOUT = 300, MAX_TIMEOUT = 31536000,
      MIN_TIMEOUT = 0, MAX_KEY_LENGTH = 1024, DEFAULT_NAME = ''default.cache3'',
      DEFAULT_MAX_SIZE = 16777216, DEFAULT_EVICT = ''lru_evict'', DEFAULT_CULL_SIZE = 10,
      EVICT_LFU = ''lfu_evict'', EVICT_FIFO = ''fifo_evict'', EVICT_LRU = ''lru_evict''\<rparr>"

text \<open>The object that \<^verbatim>\<open>BaseCache()\<close> constructs under these constants.\<close>

definition example_cache :: cache where
  "example_cache =
     \<lparr>priv_name = ''default.cache3'', priv_timeout = 300, priv_max_size = 16777216,
      priv_evict = ''lru_evict'', priv_cull_size = 10, priv_kwargs = Map.empty\<rparr>"

text \<open>
  A backend that keeps its entries in a dictionary from key and tag to value and
  never expires them.
\<close>

definition dict_backend :: "(string \<times> pyval \<rightharpoonup> 'v, 'v) backend" where
  "dict_backend =
     \<lparr>cache_get = (\<lambda>st key dflt tag.
         (case st (key, tag) of None \<Rightarrow> dflt | Some v \<Rightarrow> Val v)),
      cache_set = (\<lambda>st key v timeout tag. (True, st((key, tag) \<mapsto> v)))\<rparr>"

text \<open>A function named \<^verbatim>\<open>double\<close> that returns twice its argument.\<close>

definition double_func :: "(int, int) pyfunc" where
  "double_func = \<lparr>func_name = ''double'', func_call = (\<lambda>x. 2 * x)\<rparr>"

section \<open>Properties of the key operations\<close>

lemma takeWhile_upto_sep:
  "sep \<notin> set xs \<Longrightarrow> takeWhile (\<lambda>c. c \<noteq> sep) (xs @ sep # ys) = xs"
  by (induction xs) auto

lemma rsplit1_last:
  assumes "sep \<notin> set t"
  shows "rsplit1 sep (k @ sep # t) = [k, t]"
proof -
  have "takeWhile (\<lambda>c. c \<noteq> sep) (rev t @ sep # rev k) = rev t"
    using assms by (simp add: takeWhile_upto_sep)
  then show ?thesis
    by (simp add: rsplit1_def)
qed

text \<open>
  Claim C5.  For every string key \<open>k\<close> and every tag \<open>t\<close> without the separator,
  \<^verbatim>\<open>make_key\<close> returns \<open>k:t\<close> and \<^verbatim>\<open>_get_key_tag\<close> splits that key into the two-element
  list of \<open>k\<close> and \<open>t\<close>.  The key \<open>k\<close> is arbitrary: it may contain the separator,
  since the split is at its last occurrence.
\<close>

theorem get_key_tag_make_key:
  assumes "CHR '':'' \<notin> set t"
  shows "make_key (PStr k) (PStr t) = Inr (k @ '':'' @ t) \<and>
         get_key_tag (k @ '':'' @ t) = [k, t]"
  using assms by (simp add: get_key_tag_def rsplit1_last)

theorem get_key_tag_make_key_witness:
  "CHR '':'' \<notin> set ''session'' \<and>
   make_key (PStr ''user:1'') (PStr ''session'') = Inr ''user:1:session'' \<and>
   get_key_tag ''user:1:session'' = [''user:1'', ''session'']"
  using get_key_tag_make_key [of "''session''" "''user:1''"] by simp

text \<open>
  Claim C9.  For every tag \<open>t\<close> that contains the separator and every raw key,
  \<^verbatim>\<open>make_key\<close> raises (a \<^verbatim>\<open>ValueError\<close>); it returns no composed key.
\<close>

theorem make_key_rejects_separator:
  assumes "CHR '':'' \<in> set t"
  shows "make_key key (PStr t) = Inl (ValueError ''The ':' is not expected in tag.'')"
  using assms by simp

theorem make_key_rejects_separator_witness:
  "CHR '':'' \<in> set ''a:b'' \<and>
   make_key (PInt 7) (PStr ''a:b'') = Inl (ValueError ''The ':' is not expected in tag.'')"
  using make_key_rejects_separator [of "''a:b''" "PInt 7"] by simp

text \<open>
  Claim C10.  For every raw key and every string tag without the separator,
  \<^verbatim>\<open>make_and_validate_key\<close> returns the composed key; it raises neither
  \<^verbatim>\<open>InvalidCacheKey\<close> nor anything else.
\<close>

theorem make_and_validate_key_returns:
  assumes "CHR '':'' \<notin> set t"
  shows "fst (make_and_validate_key S key (Passed (PStr t))) = Inr (py_str key @ '':'' @ t)"
  using assms
  by (simp add: make_and_validate_key_def validate_key_def Let_def split: prod.splits)

theorem make_and_validate_key_returns_witness:
  "CHR '':'' \<notin> set ''session'' \<and>
   fst (make_and_validate_key example_setting (PStr ''user:1'') (Passed (PStr ''session'')))
     = Inr ''user:1:session''"
  using make_and_validate_key_returns [of "''session''" example_setting "PStr ''user:1''"]
  by simp

text \<open>
  Claim C8.  \<^verbatim>\<open>validate_key\<close> returns a failure exactly when the key is not a string,
  and the failure carries a message; for a string key longer than
  \<^verbatim>\<open>MAX_KEY_LENGTH\<close> it emits one \<^verbatim>\<open>CacheKeyWarning\<close> and returns success.
\<close>

theorem validate_key_outcomes:
  "(snd (fst (validate_key S key)) = False) = (\<not> isinstance_str key) \<and>
   (\<not> isinstance_str key \<longrightarrow> (\<exists>msg. validate_key S key = ((Some msg, False), []))) \<and>
   (MAX_KEY_LENGTH S < int (length k) \<longrightarrow>
      (\<exists>msg. validate_key S (PStr k) = ((None, True), [CacheKeyWarning msg])))"
  by (simp add: validate_key_def Let_def)

theorem validate_key_outcomes_witness:
  "\<not> isinstance_str (PInt 5) \<and>
   (\<exists>msg. validate_key (example_setting\<lparr>MAX_KEY_LENGTH := 4\<rparr>) (PInt 5)
            = ((Some msg, False), [])) \<and>
   MAX_KEY_LENGTH (example_setting\<lparr>MAX_KEY_LENGTH := 4\<rparr>) < int (length ''hello'') \<and>
   (\<exists>msg. validate_key (example_setting\<lparr>MAX_KEY_LENGTH := 4\<rparr>) (PStr ''hello'')
            = ((None, True), [CacheKeyWarning msg]))"
  using validate_key_outcomes [of "example_setting\<lparr>MAX_KEY_LENGTH := 4\<rparr>" "PInt 5" "''hello''"]
  by simp

text \<open>
  Claim C2.  When \<^verbatim>\<open>make_and_validate_key\<close> is called without a tag, the tag is
  \<^verbatim>\<open>None\<close>, no default tag is substituted, and the membership test of \<^verbatim>\<open>make_key\<close>
  raises a \<^verbatim>\<open>TypeError\<close>: for every raw key the call fails.
\<close>

theorem make_and_validate_key_without_tag:
  "make_and_validate_key S key Omitted = (Inl BuiltinTypeError, [])"
  by (simp add: make_and_validate_key_def)

section \<open>Properties of the configuration\<close>

lemma init_example:
  "init example_setting Omitted Omitted Omitted Map.empty = Inr example_cache"
  by (simp add: init_def example_setting_def example_cache_def name_validate_def
      timeout_validate_def max_size_validate_def evict_validate_def cull_size_validate_def
      NumberValidate_def StringValidate_def EnumerateValidate_def)

lemma init_priv_timeout:
  assumes "init S name tm ms kw = Inr self"
      and "arg_or (PInt (DEFAULT_TIMEOUT S)) tm = PInt configured"
  shows "priv_timeout self = configured"
  using assms
  by (auto simp: init_def timeout_validate_def NumberValidate_def
      split: sum.splits if_splits)

text \<open>
  Claim C1, as the code has it.  \<^verbatim>\<open>config\<close> assigns \<^verbatim>\<open>evict\<close> and then \<^verbatim>\<open>cull_size\<close>,
  each validated on assignment, options that are not supplied taking the defaults.
  When the value for \<^verbatim>\<open>evict\<close> is rejected, the call raises and the object is
  unchanged.  When it is accepted and the value for \<^verbatim>\<open>cull_size\<close> is rejected, the call
  raises, \<^verbatim>\<open>cull_size\<close> keeps its value and \<^verbatim>\<open>evict\<close> holds the new one.  When both are
  accepted, both fields hold the new values.
\<close>

theorem config_sequential:
  "(evict_validate S (dict_get kwargs ''evict'' (PStr (DEFAULT_EVICT S))) = Inl e \<longrightarrow>
      config S self kwargs = (self, Some e)) \<and>
   (evict_validate S (dict_get kwargs ''evict'' (PStr (DEFAULT_EVICT S))) = Inr ev \<and>
    cull_size_validate (dict_get kwargs ''cull_size'' (PInt (DEFAULT_CULL_SIZE S))) = Inl e \<longrightarrow>
      config S self kwargs = (self\<lparr>priv_evict := ev\<rparr>, Some e)) \<and>
   (evict_validate S (dict_get kwargs ''evict'' (PStr (DEFAULT_EVICT S))) = Inr ev \<and>
    cull_size_validate (dict_get kwargs ''cull_size'' (PInt (DEFAULT_CULL_SIZE S))) = Inr c \<longrightarrow>
      config S self kwargs = (self\<lparr>priv_evict := ev, priv_cull_size := c\<rparr>, None))"
  by (simp add: config_def Let_def)

text \<open>
  The three cases on the object that \<^verbatim>\<open>BaseCache()\<close> constructs: an unknown policy
  name, a known policy name with a negative cull size, and two valid options.
\<close>

theorem config_sequential_witness:
  "evict_validate example_setting
       (dict_get [''evict'' \<mapsto> PStr ''mru_evict''] ''evict''
          (PStr (DEFAULT_EVICT example_setting))) = Inl ValidationError \<and>
   config example_setting example_cache [''evict'' \<mapsto> PStr ''mru_evict'']
     = (example_cache, Some ValidationError) \<and>
   evict_validate example_setting
       (dict_get [''evict'' \<mapsto> PStr ''lfu_evict'', ''cull_size'' \<mapsto> PInt (- 5)] ''evict''
          (PStr (DEFAULT_EVICT example_setting))) = Inr ''lfu_evict'' \<and>
   cull_size_validate
       (dict_get [''evict'' \<mapsto> PStr ''lfu_evict'', ''cull_size'' \<mapsto> PInt (- 5)] ''cull_size''
          (PInt (DEFAULT_CULL_SIZE example_setting))) = Inl ValidationError \<and>
   config example_setting example_cache
       [''evict'' \<mapsto> PStr ''lfu_evict'', ''cull_size'' \<mapsto> PInt (- 5)]
     = (example_cache\<lparr>priv_evict := ''lfu_evict''\<rparr>, Some ValidationError) \<and>
   evict_validate example_setting
       (dict_get [''cull_size'' \<mapsto> PInt 3] ''evict''
          (PStr (DEFAULT_EVICT example_setting))) = Inr ''lru_evict'' \<and>
   cull_size_validate
       (dict_get [''cull_size'' \<mapsto> PInt 3] ''cull_size''
          (PInt (DEFAULT_CULL_SIZE example_setting))) = Inr 3 \<and>
   config example_setting example_cache [''cull_size'' \<mapsto> PInt 3]
     = (example_cache\<lparr>priv_evict := ''lru_evict'', priv_cull_size := 3\<rparr>, None)"
  using
    config_sequential [of example_setting "[''evict'' \<mapsto> PStr ''mru_evict'']"
      ValidationError example_cache]
    config_sequential [of example_setting
      "[''evict'' \<mapsto> PStr ''lfu_evict'', ''cull_size'' \<mapsto> PInt (- 5)]"
      ValidationError example_cache "''lfu_evict''"]
    config_sequential [of example_setting "[''cull_size'' \<mapsto> PInt 3]"
      ValidationError example_cache "''lru_evict''" 3]
  by (simp add: dict_get_def evict_validate_def cull_size_validate_def
      NumberValidate_def EnumerateValidate_def example_setting_def)

text \<open>
  Claim C1, as stated, fails.  On the object that \<^verbatim>\<open>BaseCache()\<close> constructs, the call
  \<^verbatim>\<open>config(evict='fifo_evict', cull_size=-1)\<close> raises in the assignment of \<^verbatim>\<open>cull_size\<close>,
  and \<^verbatim>\<open>evict\<close>, which was \<^verbatim>\<open>'lru_evict'\<close> before the call, is \<^verbatim>\<open>'fifo_evict'\<close> after it.
\<close>

theorem config_not_atomic:
  "init example_setting Omitted Omitted Omitted Map.empty = Inr example_cache \<and>
   cull_size_validate (PInt (- 1)) = Inl ValidationError \<and>
   snd (config example_setting example_cache
          [''evict'' \<mapsto> PStr ''fifo_evict'', ''cull_size'' \<mapsto> PInt (- 1)])
     = Some ValidationError \<and>
   priv_evict example_cache = ''lru_evict'' \<and>
   priv_evict (fst (config example_setting example_cache
          [''evict'' \<mapsto> PStr ''fifo_evict'', ''cull_size'' \<mapsto> PInt (- 1)]))
     = ''fifo_evict'' \<and>
   priv_cull_size (fst (config example_setting example_cache
          [''evict'' \<mapsto> PStr ''fifo_evict'', ''cull_size'' \<mapsto> PInt (- 1)]))
     = priv_cull_size example_cache"
  using init_example
  by (simp add: config_def dict_get_def evict_validate_def cull_size_validate_def
      NumberValidate_def EnumerateValidate_def example_setting_def example_cache_def)

section \<open>Properties of the timeout resolution\<close>

text \<open>
  Claim C3.  On a cache constructed with the timeout \<open>configured\<close> (passed, or the
  default), \<^verbatim>\<open>get_backend_timeout\<close> returns \<^verbatim>\<open>None\<close> for the timeout \<^verbatim>\<open>None\<close>, the clock
  reading plus the timeout for a timeout other than \<^verbatim>\<open>DEFAULT_TIMEOUT\<close>, and the clock
  reading plus the configured timeout when the argument equals \<^verbatim>\<open>DEFAULT_TIMEOUT\<close> or
  is omitted.
\<close>

theorem get_backend_timeout_resolves:
  assumes "init S name tm ms kw = Inr self"
      and "arg_or (PInt (DEFAULT_TIMEOUT S)) tm = PInt configured"
  shows "get_backend_timeout S self now (Passed None) = None \<and>
         (x \<noteq> DEFAULT_TIMEOUT S \<longrightarrow>
            get_backend_timeout S self now (Passed (Some x)) = Some (now + x)) \<and>
         get_backend_timeout S self now (Passed (Some (DEFAULT_TIMEOUT S)))
           = Some (now + configured) \<and>
         get_backend_timeout S self now Omitted = Some (now + configured)"
  using init_priv_timeout [OF assms]
  by (simp add: get_backend_timeout_def Let_def)

theorem get_backend_timeout_resolves_witness:
  "init example_setting Omitted (Passed (PInt 60)) Omitted Map.empty
     = Inr (example_cache\<lparr>priv_timeout := 60\<rparr>) \<and>
   arg_or (PInt (DEFAULT_TIMEOUT example_setting)) (Passed (PInt 60)) = PInt 60 \<and>
   get_backend_timeout example_setting (example_cache\<lparr>priv_timeout := 60\<rparr>) 1000
     (Passed None) = None \<and>
   5 \<noteq> DEFAULT_TIMEOUT example_setting \<and>
   get_backend_timeout example_setting (example_cache\<lparr>priv_timeout := 60\<rparr>) 1000
     (Passed (Some 5)) = Some 1005 \<and>
   get_backend_timeout example_setting (example_cache\<lparr>priv_timeout := 60\<rparr>) 1000
     (Passed (Some (DEFAULT_TIMEOUT example_setting))) = Some 1060 \<and>
   get_backend_timeout example_setting (example_cache\<lparr>priv_timeout := 60\<rparr>) 1000
     Omitted = Some 1060"
proof -
  have built: "init example_setting Omitted (Passed (PInt 60)) Omitted Map.empty
      = Inr (example_cache\<lparr>priv_timeout := 60\<rparr>)"
    by (simp add: init_def example_setting_def example_cache_def name_validate_def
        timeout_validate_def max_size_validate_def evict_validate_def
        cull_size_validate_def NumberValidate_def StringValidate_def
        EnumerateValidate_def)
  have passed: "arg_or (PInt (DEFAULT_TIMEOUT example_setting)) (Passed (PInt 60)) = PInt 60"
    by simp
  have other: "5 \<noteq> DEFAULT_TIMEOUT example_setting"
    by (simp add: example_setting_def)
  show ?thesis
    using get_backend_timeout_resolves [OF built passed, of 1000 5] built other
    by simp
qed

section \<open>Properties of the eviction policy\<close>

lemma evictor_missing:
  assumes "attrs (priv_evict self) = None"
  shows "\<exists>msg. evictor attrs self = (Inr ObjectClass, [RuntimeWarning msg])"
  using assms by (simp add: evictor_def)

lemma evictor_scalar:
  assumes "attrs (priv_evict self) = Some (Data (Scalar v))"
  shows "\<exists>msg. evictor attrs self = (Inr ObjectClass, [RuntimeWarning msg])"
  using assms by (simp add: evictor_def)

lemma evictor_method:
  assumes "attrs (priv_evict self) = Some (Method f)"
  shows "evictor attrs self = (Inr (Resolved f), [])"
  using assms by (simp add: evictor_def)

text \<open>
  Claim C4.  A policy name that resolves to no member, or to a member that is neither
  callable nor a tuple, gives the class \<^verbatim>\<open>object\<close> and one warning (the lemmas above).
  A member that is a tuple of two values is not callable either, but the message of
  the warning is built with \<^verbatim>\<open>%\<close> and the member itself as right operand, so the
  tuple is taken as the argument list of a format with one conversion: the property
  raises \<^verbatim>\<open>TypeError\<close> and emits no warning.
\<close>

theorem evictor_tuple_member_raises:
  "evictor [''lru_evict'' \<mapsto> Data (Tuple [PInt 1, PInt 2])] example_cache
     = (Inl BuiltinTypeError, [])"
  by (simp add: evictor_def example_cache_def)

section \<open>Properties of the composed operations\<close>

lemma get_many_loop_map:
  "get_many_loop B st tag keys m =
     (\<lambda>k. if k \<in> set keys
          then (case cache_get B st k Empty tag of Empty \<Rightarrow> m k | Val v \<Rightarrow> Some v)
          else m k)"
proof (induction keys arbitrary: m)
  case Nil
  show ?case by simp
next
  case (Cons key keys)
  show ?case
  proof (cases "cache_get B st key Empty tag")
    case Empty
    then show ?thesis
      by (auto simp: Cons.IH fun_eq_iff split: fetched.splits)
  next
    case (Val v)
    then show ?thesis
      by (auto simp: Cons.IH fun_eq_iff split: fetched.splits)
  qed
qed

text \<open>
  Claim C7.  For every backend, state, list of keys and tag, \<^verbatim>\<open>get_many\<close> is the
  mapping whose keys are the listed keys for which \<^verbatim>\<open>get(key, empty, tag)\<close> does not
  return the sentinel, each mapped to the value returned; two lists with the same
  set of keys (any order, any repetition) give the same mapping.
\<close>

theorem get_many_mapping:
  "get_many S B st keys tag =
     (\<lambda>k. if k \<in> set keys
          then (case cache_get B st k Empty (arg_or (PStr (DEFAULT_TAG S)) tag) of
                  Empty \<Rightarrow> None | Val v \<Rightarrow> Some v)
          else None) \<and>
   (set keys' = set keys \<longrightarrow> get_many S B st keys' tag = get_many S B st keys tag)"
  by (simp add: get_many_def get_many_loop_map)

theorem get_many_mapping_witness:
  "set [''b'', ''a''] = set [''a'', ''b'', ''a''] \<and>
   get_many example_setting dict_backend [(''a'', PStr ''t'') \<mapsto> (1::int)]
       [''b'', ''a''] (Passed (PStr ''t''))
     = get_many example_setting dict_backend [(''a'', PStr ''t'') \<mapsto> (1::int)]
       [''a'', ''b'', ''a''] (Passed (PStr ''t'')) \<and>
   get_many example_setting dict_backend [(''a'', PStr ''t'') \<mapsto> (1::int)]
       [''a'', ''b'', ''a''] (Passed (PStr ''t'')) ''a'' = Some 1 \<and>
   get_many example_setting dict_backend [(''a'', PStr ''t'') \<mapsto> (1::int)]
       [''a'', ''b'', ''a''] (Passed (PStr ''t'')) ''b'' = None"
  using get_many_mapping [of example_setting dict_backend
      "[(''a'', PStr ''t'') \<mapsto> (1::int)]" "[''a'', ''b'', ''a'']" "Passed (PStr ''t'')"
      "[''b'', ''a'']"]
  by (auto simp: dict_backend_def)

text \<open>
  Claim C6.  The wrapper looks the function's name up under the tag.  When the lookup
  misses, it invokes the function with the call's arguments, stores the result under
  the name, the tag and the timeout, and returns it.  When the backend then finds the
  stored result (it has not expired), a second call with any arguments returns the
  first result, invokes the function not at all and leaves the state as it is.
\<close>

theorem memoize_keys_on_name:
  assumes "arg_or (PlainTag (PStr (DEFAULT_TAG S))) tag_arg = PlainTag tag"
      and "arg_or (Some (DEFAULT_TIMEOUT S)) timeout_arg = timeout"
      and "memoize S B tag_arg timeout_arg = Inr decorator"
      and "cache_get B st (func_name f) Empty tag = Empty"
      and "st1 = snd (cache_set B st (func_name f) (func_call f a) timeout tag)"
      and "cache_get B st1 (func_name f) Empty tag = Val (func_call f a)"
  shows "decorator f a st = (func_call f a, st1, [a]) \<and>
         decorator f b st1 = (func_call f a, st1, [])"
  using assms by (auto simp: memoize_def wrapper_def Let_def)

theorem memoize_keys_on_name_witness:
  "memoize example_setting dict_backend (Passed (PlainTag (PStr ''t''))) (Passed (Some 60))
     = Inr (wrapper dict_backend (PStr ''t'') (Some 60)) \<and>
   cache_get dict_backend Map.empty (func_name double_func) Empty (PStr ''t'') = Empty \<and>
   cache_get dict_backend [(''double'', PStr ''t'') \<mapsto> 6] (func_name double_func) Empty
     (PStr ''t'') = Val (func_call double_func 3) \<and>
   wrapper dict_backend (PStr ''t'') (Some 60) double_func 3 Map.empty
     = (6, [(''double'', PStr ''t'') \<mapsto> 6], [3]) \<and>
   wrapper dict_backend (PStr ''t'') (Some 60) double_func 5 [(''double'', PStr ''t'') \<mapsto> 6]
     = (6, [(''double'', PStr ''t'') \<mapsto> 6], [])"
proof -
  have made: "memoize example_setting dict_backend (Passed (PlainTag (PStr ''t'')))
      (Passed (Some 60)) = Inr (wrapper dict_backend (PStr ''t'') (Some 60))"
    by (simp add: memoize_def)
  have miss: "cache_get dict_backend Map.empty (func_name double_func) Empty (PStr ''t'')
      = Empty"
    by (simp add: dict_backend_def)
  have after: "[(''double'', PStr ''t'') \<mapsto> 6] =
      snd (cache_set dict_backend Map.empty (func_name double_func)
             (func_call double_func 3) (Some 60) (PStr ''t''))"
    by (simp add: dict_backend_def double_func_def)
  have hit: "cache_get dict_backend [(''double'', PStr ''t'') \<mapsto> 6] (func_name double_func)
      Empty (PStr ''t'') = Val (func_call double_func 3)"
    by (simp add: dict_backend_def double_func_def)
  have "arg_or (PlainTag (PStr (DEFAULT_TAG example_setting))) (Passed (PlainTag (PStr ''t'')))
      = PlainTag (PStr ''t'')"
    by simp
  moreover have "arg_or (Some (DEFAULT_TIMEOUT example_setting)) (Passed (Some 60)) = Some 60"
    by simp
  ultimately show ?thesis
    using memoize_keys_on_name [OF _ _ made miss after hit, of 5] made miss hit
    by (simp add: double_func_def)
qed

end
